theory Spec2Isabelle
  imports Complex_Main "HOL-Library.AList" "HOL-Library.Sublist"
begin

section \<open>Numbers\<close>

text \<open>
  The engine computes with Python and numpy floating-point numbers.  They are modelled
  by the type \<open>fl\<close>: a finite value carries an exact real (rounding, overflow and the
  sign of zero are not modelled), and the three non-finite values of IEEE arithmetic are
  kept, because numpy produces them instead of raising: a division by zero yields an
  infinity or \<open>NaN\<close>, the standard deviation of an empty array is \<open>NaN\<close>, and every
  comparison with \<open>NaN\<close> is false.

  Since the finite arithmetic is exact where float64 rounds, the general theorems below
  say which operations the code applies to which operands, and use no law of arithmetic
  on their results; the values of the concrete runs are those of exact arithmetic.
\<close>

datatype fl = Fin real | PInf | NInf | NaN

instantiation fl :: "{plus, minus, uminus, times, inverse, ord}"
begin

fun uminus_fl :: "fl \<Rightarrow> fl" where
  "uminus_fl (Fin a) = Fin (- a)"
| "uminus_fl PInf = NInf"
| "uminus_fl NInf = PInf"
| "uminus_fl NaN = NaN"

fun plus_fl :: "fl \<Rightarrow> fl \<Rightarrow> fl" where
  "plus_fl (Fin a) (Fin b) = Fin (a + b)"
| "plus_fl NaN _ = NaN"
| "plus_fl _ NaN = NaN"
| "plus_fl PInf NInf = NaN"
| "plus_fl NInf PInf = NaN"
| "plus_fl PInf _ = PInf"
| "plus_fl _ PInf = PInf"
| "plus_fl NInf _ = NInf"
| "plus_fl _ NInf = NInf"

definition minus_fl :: "fl \<Rightarrow> fl \<Rightarrow> fl" where
  "minus_fl x y = x + (- y)"

fun times_fl :: "fl \<Rightarrow> fl \<Rightarrow> fl" where
  "times_fl (Fin a) (Fin b) = Fin (a * b)"
| "times_fl NaN _ = NaN"
| "times_fl _ NaN = NaN"
| "times_fl (Fin a) PInf = (if a = 0 then NaN else if 0 < a then PInf else NInf)"
| "times_fl (Fin a) NInf = (if a = 0 then NaN else if 0 < a then NInf else PInf)"
| "times_fl PInf (Fin b) = (if b = 0 then NaN else if 0 < b then PInf else NInf)"
| "times_fl NInf (Fin b) = (if b = 0 then NaN else if 0 < b then NInf else PInf)"
| "times_fl PInf PInf = PInf"
| "times_fl PInf NInf = NInf"
| "times_fl NInf PInf = NInf"
| "times_fl NInf NInf = PInf"

text \<open>Division as numpy does it: no exception, a zero divisor gives an infinity or \<open>NaN\<close>.\<close>

fun divide_fl :: "fl \<Rightarrow> fl \<Rightarrow> fl" where
  "divide_fl (Fin a) (Fin b) =
     (if b = 0 then (if a = 0 then NaN else if 0 < a then PInf else NInf)
      else Fin (a / b))"
| "divide_fl NaN _ = NaN"
| "divide_fl _ NaN = NaN"
| "divide_fl (Fin a) _ = Fin 0"
| "divide_fl PInf (Fin b) = (if 0 \<le> b then PInf else NInf)"
| "divide_fl NInf (Fin b) = (if 0 \<le> b then NInf else PInf)"
| "divide_fl _ _ = NaN"

definition inverse_fl :: "fl \<Rightarrow> fl" where
  "inverse_fl x = Fin 1 div x"

fun less_fl :: "fl \<Rightarrow> fl \<Rightarrow> bool" where
  "less_fl (Fin a) (Fin b) = (a < b)"
| "less_fl NaN _ = False"
| "less_fl _ NaN = False"
| "less_fl _ NInf = False"
| "less_fl PInf _ = False"
| "less_fl _ _ = True"

definition less_eq_fl :: "fl \<Rightarrow> fl \<Rightarrow> bool" where
  "less_eq_fl x y = (x < y \<or> (x = y \<and> x \<noteq> NaN))"

instance ..

end

text \<open>
  \<open>np.sqrt\<close>, and the power \<open>x ** e\<close> of a numpy scalar with a Python float exponent.
  Python's own power differs from numpy's only for a negative base with a fractional
  exponent (it yields a complex number); \<open>performance_summary\<close> never reaches that
  case with plain Python operands, since the base is then 1 or \<open>NaN\<close>.
\<close>

fun fsqrt :: "fl \<Rightarrow> fl" where
  "fsqrt (Fin a) = (if 0 \<le> a then Fin (sqrt a) else NaN)"
| "fsqrt PInf = PInf"
| "fsqrt NInf = NaN"
| "fsqrt NaN = NaN"

definition is_integer :: "real \<Rightarrow> bool" where
  "is_integer e = (e = of_int \<lfloor>e\<rfloor>)"

fun fpow :: "fl \<Rightarrow> real \<Rightarrow> fl" where
  "fpow x e =
     (if e = 0 then Fin 1
      else case x of
        NaN \<Rightarrow> NaN
      | Fin b \<Rightarrow>
          (if 0 < b then Fin (b powr e)
           else if b = 0 then (if 0 < e then Fin 0 else PInf)
           else if is_integer e then Fin (b powi \<lfloor>e\<rfloor>)
           else NaN)
      | PInf \<Rightarrow> (if 0 < e then PInf else Fin 0)
      | NInf \<Rightarrow> (if 0 < e then (if is_integer e \<and> odd \<lfloor>e\<rfloor> then NInf else PInf)
                 else Fin 0))"

section \<open>The data model\<close>

text \<open>
  A row of the data frame, as \<open>iterrows\<close> yields it: the row's index label (\<open>row.name\<close>,
  the date in a frame downloaded by \<open>fetch_data\<close>), its \<open>Close\<close> and its \<open>signal\<close>.
  The frame itself is the list of its rows together with the attribute \<open>name\<close> that
  \<open>main\<close> sets to the ticker (a frame without that attribute is outside this type:
  the sell branch would raise \<open>AttributeError\<close> on it).  Labels and the name are Python
  objects of any hashable type; here they share the type \<open>'k\<close>.  The values read from
  a row are numpy scalars.
\<close>

record 'k row =
  label :: 'k
  close :: fl
  signal :: int

record 'k frame =
  name :: 'k
  rows :: "'k row list"

text \<open>An entry of \<open>self.trades\<close>: the dictionary with the keys ticker, quantity, price.\<close>

record 'k trade =
  ticker :: 'k
  quantity :: fl
  price :: fl

text \<open>
  The object \<open>TradingBacktester\<close> and its constructor \<open>__init__\<close>.  The dictionary
  \<open>positions\<close> is an association list in insertion order, as a Python dictionary is.
\<close>

record 'k TradingBacktester =
  data :: "'k frame"
  cash :: fl
  positions :: "('k \<times> fl) list"
  trades :: "'k trade list"
  risk_fraction :: fl

definition init :: "'k frame \<Rightarrow> fl \<Rightarrow> fl \<Rightarrow> 'k TradingBacktester" where
  "init market_data initial_cash rf =
     \<lparr>data = market_data, cash = initial_cash, positions = [], trades = [],
      risk_fraction = rf\<rparr>"

text \<open>\<open>positions.get(k, 0)\<close>\<close>

definition get :: "('k \<times> fl) list \<Rightarrow> 'k \<Rightarrow> fl" where
  "get ps k = (case map_of ps k of None \<Rightarrow> Fin 0 | Some q \<Rightarrow> q)"

section \<open>The simulator\<close>

text \<open>The method \<open>_execute\<close>.\<close>

definition execute ::
  "'k TradingBacktester \<Rightarrow> 'k \<Rightarrow> fl \<Rightarrow> fl \<Rightarrow> 'k TradingBacktester" where
  "execute self tk qty pr =
     self\<lparr>cash := cash self - qty * pr,
          positions := AList.update tk (get (positions self) tk + qty) (positions self),
          trades := trades self @ [\<lparr>ticker = tk, quantity = qty, price = pr\<rparr>]\<rparr>"

text \<open>
  The body of the loop of \<open>simulate\<close> for one row, then the loop and the method.  A buy
  is recorded under the row's label (\<open>row.name\<close>); the sell branch reads the held
  quantity under the frame's name (\<open>self.data.name\<close>) and records the sale under the
  row's label again.
\<close>

definition step :: "'k row \<Rightarrow> 'k TradingBacktester \<Rightarrow> 'k TradingBacktester" where
  "step r self =
     (let sig = signal r; pr = close r in
      if sig = 1 then
        (let available = cash self;
             qty = (available * risk_fraction self) / pr
         in execute self (label r) qty pr)
      else if sig = - 1 then
        (let qty = get (positions self) (name (data self))
         in if qty > Fin 0 then execute self (label r) (- qty) pr else self)
      else self)"

fun simulate_rows ::
  "'k row list \<Rightarrow> 'k TradingBacktester \<Rightarrow> 'k TradingBacktester" where
  "simulate_rows [] self = self"
| "simulate_rows (r # rs) self = simulate_rows rs (step r self)"

definition simulate :: "'k TradingBacktester \<Rightarrow> 'k TradingBacktester" where
  "simulate self = simulate_rows (rows (data self)) self"

text \<open>The rows with a buy signal.\<close>

definition buys :: "'k row list \<Rightarrow> 'k row list" where
  "buys rs = filter (\<lambda>r. signal r = 1) rs"

text \<open>Python's \<open>sum\<close> starts from 0 and adds from the left.\<close>

definition py_sum :: "fl list \<Rightarrow> fl" where
  "py_sum xs = foldl (+) (Fin 0) xs"

definition portfolio_value :: "'k TradingBacktester \<Rightarrow> fl \<Rightarrow> fl" where
  "portfolio_value self pr =
     (let pos_value = py_sum (map (\<lambda>(_, qty). qty * pr) (positions self))
      in cash self + pos_value)"

section \<open>The analysis\<close>

text \<open>\<open>np.diff\<close>, \<open>np.sum\<close>, \<open>np.mean\<close> and \<open>np.std\<close> (the population deviation).\<close>

fun np_diff :: "fl list \<Rightarrow> fl list" where
  "np_diff (x # y # zs) = (y - x) # np_diff (y # zs)"
| "np_diff _ = []"

definition np_sum :: "fl list \<Rightarrow> fl" where
  "np_sum xs = foldl (+) (Fin 0) xs"

definition np_mean :: "fl list \<Rightarrow> fl" where
  "np_mean xs = np_sum xs / Fin (real (length xs))"

definition np_std :: "fl list \<Rightarrow> fl" where
  "np_std xs =
     (let m = np_mean xs in fsqrt (np_mean (map (\<lambda>x. (x - m) * (x - m)) xs)))"

text \<open>
  \<open>values[:-1]\<close> is \<open>butlast values\<close>; the quotient of two arrays is taken element by
  element.
\<close>

definition returns :: "'k TradingBacktester \<Rightarrow> fl list" where
  "returns self =
     (let values = map (\<lambda>r. portfolio_value self (close r)) (rows (data self))
      in map2 (/) (np_diff values) (butlast values))"

text \<open>
  The exceptions \<open>performance_summary\<close> can raise.  \<open>IndexError\<close> comes from
  \<open>iloc[0]\<close> on a frame without rows.  \<open>ZeroDivisionError\<close> comes from the division
  of line 65 when both operands are plain Python numbers: that is the case exactly as
  long as nothing was executed (\<open>cash\<close> is still the constructor's argument and
  \<open>positions\<close> is empty); once a trade was executed the operands are numpy scalars and
  the division yields an infinity or \<open>NaN\<close>.  \<open>TypeError\<close> comes from comparing a
  Python list with a number.
\<close>

datatype error = IndexError | ZeroDivisionError | TypeError

definition python_scalars :: "'k TradingBacktester \<Rightarrow> bool" where
  "python_scalars self = (trades self = [] \<and> positions self = [])"

text \<open>
  The trade statistics are numpy arrays when there are at least two trades and the
  Python list \<open>[0]\<close> otherwise.  \<open>x > 0\<close> is defined on an array only.
\<close>

datatype seq = NdArray "fl list" | PyList "fl list"

fun elems :: "seq \<Rightarrow> fl list" where
  "elems (NdArray xs) = xs"
| "elems (PyList xs) = xs"

fun gt_zero :: "seq \<Rightarrow> error + bool list" where
  "gt_zero (NdArray xs) = Inr (map (\<lambda>x. x > Fin 0) xs)"
| "gt_zero (PyList xs) = Inl TypeError"

record summary =
  Total_Return :: fl
  Annualized_Return :: fl
  Volatility :: fl
  Sharpe_Ratio :: fl
  PnL :: fl
  Avg_Trade_Return :: fl
  Win_Rate :: fl

definition performance_summary :: "'k TradingBacktester \<Rightarrow> error + summary" where
  "performance_summary self =
     (let rets = returns self; rs = rows (data self) in
      if rs = [] then Inl IndexError
      else
        let initial_val = portfolio_value self (close (hd rs));
            final_val = portfolio_value self (close (last rs))
        in
        if python_scalars self \<and> initial_val = Fin 0 then Inl ZeroDivisionError
        else
          let total_return = (final_val - initial_val) / initial_val;
              annual_return = fpow (Fin 1 + total_return) (252 / real (length rs)) - Fin 1;
              volatility = np_std rets * fsqrt (Fin 252);
              sharpe =
                (if volatility > Fin 0 then (annual_return - Fin 0.02) / volatility
                 else Fin 0);
              trade_prices = map price (trades self);
              trade_qty = map quantity (trades self);
              trade_returns =
                (if length trade_prices > 1
                 then NdArray (map2 (/) (np_diff trade_prices) (butlast trade_prices))
                 else PyList [Fin 0]);
              trade_pnl =
                (if length trade_qty > 1
                 then NdArray (map2 (*) (elems trade_returns) (butlast trade_qty))
                 else PyList [Fin 0]);
              pnl = np_sum (elems trade_pnl);
              avg_return =
                (if length (elems trade_returns) > 0 then np_mean (elems trade_returns)
                 else Fin 0);
              win_rate =
                (if length (elems trade_pnl) > 0
                 then (case gt_zero trade_pnl of
                         Inl e \<Rightarrow> Inl e
                       | Inr wins \<Rightarrow>
                           Inr (Fin (real (length (filter id wins)))
                                / Fin (real (length (elems trade_pnl)))))
                 else Inr (Fin 0))
          in case win_rate of
               Inl e \<Rightarrow> Inl e
             | Inr w \<Rightarrow>
                 Inr \<lparr>Total_Return = total_return, Annualized_Return = annual_return,
                      Volatility = volatility, Sharpe_Ratio = sharpe, PnL = pnl,
                      Avg_Trade_Return = avg_return, Win_Rate = w\<rparr>)"

text \<open>
  The values that \<open>performance_summary\<close> binds on its way, as functions of the state;
  \<open>performance_summary_unfold\<close> below relates them to the definition above.
\<close>

definition initial_val_of :: "'k TradingBacktester \<Rightarrow> fl" where
  "initial_val_of self = portfolio_value self (close (hd (rows (data self))))"

definition final_val_of :: "'k TradingBacktester \<Rightarrow> fl" where
  "final_val_of self = portfolio_value self (close (last (rows (data self))))"

definition total_return_of :: "'k TradingBacktester \<Rightarrow> fl" where
  "total_return_of self = (final_val_of self - initial_val_of self) / initial_val_of self"

definition annual_return_of :: "'k TradingBacktester \<Rightarrow> fl" where
  "annual_return_of self =
     fpow (Fin 1 + total_return_of self) (252 / real (length (rows (data self)))) - Fin 1"

definition volatility_of :: "'k TradingBacktester \<Rightarrow> fl" where
  "volatility_of self = np_std (returns self) * fsqrt (Fin 252)"

definition sharpe_of :: "fl \<Rightarrow> fl \<Rightarrow> fl" where
  "sharpe_of ar vol = (if vol > Fin 0 then (ar - Fin 0.02) / vol else Fin 0)"

definition trade_returns_of :: "'k trade list \<Rightarrow> fl list" where
  "trade_returns_of ts = map2 (/) (np_diff (map price ts)) (butlast (map price ts))"

definition trade_pnl_of :: "'k trade list \<Rightarrow> fl list" where
  "trade_pnl_of ts = map2 (*) (trade_returns_of ts) (butlast (map quantity ts))"

section \<open>Example frames\<close>

text \<open>
  Frames as \<open>main\<close> builds them: the rows are labelled by their dates, the name is the
  ticker.  \<open>scenario_A\<close> has the closes 100, 110, 121 with the signals buy, hold, sell.
\<close>

definition mk_row :: "'k \<Rightarrow> real \<Rightarrow> int \<Rightarrow> 'k row" where
  "mk_row l c sg = \<lparr>label = l, close = Fin c, signal = sg\<rparr>"

definition scenario_A :: "string frame" where
  "scenario_A =
     \<lparr>name = ''AAPL'',
      rows = [mk_row ''2024-01-02'' 100 1, mk_row ''2024-01-03'' 110 0,
              mk_row ''2024-01-04'' 121 (- 1)]\<rparr>"

definition one_buy :: "string \<Rightarrow> string frame" where
  "one_buy nm = \<lparr>name = nm, rows = [mk_row ''2024-01-02'' 100 1]\<rparr>"

definition two_buys :: "string frame" where
  "two_buys =
     \<lparr>name = ''AAPL'',
      rows = [mk_row ''2024-01-02'' 100 1, mk_row ''2024-01-03'' 125 1]\<rparr>"

definition leveraged :: "string TradingBacktester" where
  "leveraged = init two_buys (Fin 1000) (Fin 2)"

definition instrument_row :: "string frame" where
  "instrument_row =
     \<lparr>name = ''AAPL'',
      rows = [mk_row ''AAPL'' 100 1, mk_row ''2024-01-04'' 121 (- 1)]\<rparr>"

text \<open>
  Further frames: two buys followed by a return to the first close, three holds, a
  single row, two buys around a row whose close is 0, and a frame without rows.
\<close>

definition round_trip :: "string frame" where
  "round_trip =
     \<lparr>name = ''AAPL'',
      rows = [mk_row ''2024-01-02'' 100 1, mk_row ''2024-01-03'' 125 1,
              mk_row ''2024-01-04'' 100 0]\<rparr>"

definition all_hold :: "string frame" where
  "all_hold =
     \<lparr>name = ''AAPL'',
      rows = [mk_row ''2024-01-02'' 100 0, mk_row ''2024-01-03'' 110 0,
              mk_row ''2024-01-04'' 121 0]\<rparr>"

definition one_point :: "string frame" where
  "one_point = \<lparr>name = ''AAPL'', rows = [mk_row ''2024-01-02'' 100 0]\<rparr>"

definition glitch :: "string frame" where
  "glitch =
     \<lparr>name = ''AAPL'',
      rows = [mk_row ''2024-01-02'' 100 1, mk_row ''2024-01-03'' 0 0,
              mk_row ''2024-01-04'' 125 1]\<rparr>"

definition no_rows :: "string frame" where
  "no_rows = \<lparr>name = ''AAPL'', rows = []\<rparr>"

lemmas run_defs =
  simulate_def init_def step_def execute_def get_def mk_row_def minus_fl_def Let_def

lemmas summary_defs =
  performance_summary_def returns_def portfolio_value_def py_sum_def python_scalars_def
  np_std_def np_mean_def np_sum_def

section \<open>Properties of \<open>execute\<close>\<close>

lemma simulate_rows_append:
  "simulate_rows (xs @ ys) self = simulate_rows ys (simulate_rows xs self)"
  by (induction xs arbitrary: self) simp_all

lemma execute_data [simp]: "data (execute self tk qty pr) = data self"
  by (simp add: execute_def)

lemma execute_risk_fraction [simp]:
  "risk_fraction (execute self tk qty pr) = risk_fraction self"
  by (simp add: execute_def)

lemma step_data [simp]: "data (step r self) = data self"
  by (simp add: step_def Let_def)

lemma step_risk_fraction [simp]: "risk_fraction (step r self) = risk_fraction self"
  by (simp add: step_def Let_def)

lemma simulate_rows_data [simp]: "data (simulate_rows rs self) = data self"
  by (induction rs arbitrary: self) simp_all

lemma simulate_rows_risk_fraction [simp]:
  "risk_fraction (simulate_rows rs self) = risk_fraction self"
  by (induction rs arbitrary: self) simp_all

text \<open>
  C3. Every call of \<open>execute\<close> with the signed quantity \<open>qty\<close> and the price \<open>pr\<close> returns
  a state (the function has no failing branch, whatever the resulting cash) in which the
  cash is the old cash minus \<open>qty * pr\<close>, the position of the key is its old value plus
  \<open>qty\<close>, where an absent key counts as 0 and is created, every other entry is as
  before, and the trade log is the old log followed by exactly one record.
\<close>

theorem execute_conservation:
  "cash (execute self tk qty pr) = cash self - qty * pr
   \<and> get (positions (execute self tk qty pr)) tk = get (positions self) tk + qty
   \<and> map_of (positions (execute self tk qty pr))
       = (map_of (positions self))(tk \<mapsto> get (positions self) tk + qty)
   \<and> (map_of (positions self) tk = None
        \<longrightarrow> map_of (positions (execute self tk qty pr)) tk = Some (Fin 0 + qty))
   \<and> trades (execute self tk qty pr)
       = trades self @ [\<lparr>ticker = tk, quantity = qty, price = pr\<rparr>]
   \<and> length (trades (execute self tk qty pr)) = Suc (length (trades self))"
  by (simp add: execute_def get_def update_conv')

theorem execute_conservation_witness:
  "map_of (positions (init (one_buy ''AAPL'') (Fin 1000) (Fin 0.5))) ''2024-01-02'' = None
   \<and> cash (execute (init (one_buy ''AAPL'') (Fin 1000) (Fin 0.5)) ''2024-01-02''
         (Fin 20) (Fin 100)) = Fin (- 1000)
   \<and> map_of (positions (execute (init (one_buy ''AAPL'') (Fin 1000) (Fin 0.5))
         ''2024-01-02'' (Fin 20) (Fin 100))) ''2024-01-02'' = Some (Fin 20)
   \<and> length (trades (execute (init (one_buy ''AAPL'') (Fin 1000) (Fin 0.5))
         ''2024-01-02'' (Fin 20) (Fin 100))) = 1"
  using execute_conservation
    [of "init (one_buy ''AAPL'') (Fin 1000) (Fin 0.5)" "''2024-01-02''" "Fin 20" "Fin 100"]
  by (simp add: init_def minus_fl_def get_def)

section \<open>Properties of \<open>simulate\<close>\<close>

text \<open>
  C4. At a row with signal 1, wherever it stands in the frame, \<open>simulate\<close> executes a buy
  at the row's close of the quantity \<open>(cash * risk_fraction) / close\<close>, where \<open>cash\<close> is
  the balance left by the rows before it in the same pass; nothing is checked before the
  buy, whatever the balance is.
\<close>

theorem buy_uses_current_cash:
  assumes "rows (data self) = before @ r # after" and "signal r = 1"
  shows "simulate self =
           (let cur = simulate_rows before self;
                qty = (cash cur * risk_fraction self) / close r
            in simulate_rows after (execute cur (label r) qty (close r)))"
  using assms by (simp add: simulate_def simulate_rows_append step_def Let_def)

theorem buy_uses_current_cash_witness:
  "rows (data (init two_buys (Fin 1000) (Fin 0.5)))
     = [mk_row ''2024-01-02'' 100 1] @ mk_row ''2024-01-03'' 125 1 # []
   \<and> signal (mk_row ''2024-01-03'' 125 1 :: string row) = 1
   \<and> cash (simulate_rows [mk_row ''2024-01-02'' 100 1] (init two_buys (Fin 1000) (Fin 0.5)))
       = Fin 500
   \<and> simulate (init two_buys (Fin 1000) (Fin 0.5))
       = execute (simulate_rows [mk_row ''2024-01-02'' 100 1]
                    (init two_buys (Fin 1000) (Fin 0.5)))
           ''2024-01-03'' (Fin 2) (Fin 125)"
proof -
  have r: "rows (data (init two_buys (Fin 1000) (Fin 0.5)))
             = [mk_row ''2024-01-02'' 100 1] @ mk_row ''2024-01-03'' 125 1 # []"
    by (simp add: init_def two_buys_def)
  have s: "signal (mk_row ''2024-01-03'' 125 1 :: string row) = 1"
    by (simp add: mk_row_def)
  have c: "cash (simulate_rows [mk_row ''2024-01-02'' 100 1]
                   (init two_buys (Fin 1000) (Fin 0.5))) = Fin 500"
    by (simp add: run_defs)
  from buy_uses_current_cash [OF r s] c r s show ?thesis
    by (simp add: Let_def init_def mk_row_def)
qed

text \<open>
  What the sell branch does: the lookup is by the frame's name, the booking by the row's
  label.
\<close>

lemma sell_branch:
  assumes "signal r = - 1"
  shows "step r self =
           (if get (positions self) (name (data self)) > Fin 0
            then execute self (label r) (- get (positions self) (name (data self))) (close r)
            else self)"
  using assms by (simp add: step_def Let_def)

text \<open>
  C1. The claim: at a sell signal, whenever the instrument is held, the whole holding is
  sold at the close and the instrument's position becomes 0.  The code stores every buy
  under the label of its row and reads the holding under the frame's name.  In
  \<open>scenario_A\<close> the first two rows leave 5 units bought at 100, and the sell signal of
  the third row changes nothing.  In \<open>instrument_row\<close>, where the buy row happens to be
  labelled with the name, the sale is executed but booked under the label of the sell
  row: the entry of the name stays at 5 and a second entry of \<open>- 5\<close> appears.
\<close>

theorem sell_signal_with_holding:
  "simulate_rows [mk_row ''2024-01-02'' 100 1, mk_row ''2024-01-03'' 110 0]
       (init scenario_A (Fin 1000) (Fin 0.5))
     = \<lparr>data = scenario_A, cash = Fin 500, positions = [(''2024-01-02'', Fin 5)],
        trades = [\<lparr>ticker = ''2024-01-02'', quantity = Fin 5, price = Fin 100\<rparr>],
        risk_fraction = Fin 0.5\<rparr>
   \<and> step (mk_row ''2024-01-04'' 121 (- 1))
       \<lparr>data = scenario_A, cash = Fin 500, positions = [(''2024-01-02'', Fin 5)],
        trades = [\<lparr>ticker = ''2024-01-02'', quantity = Fin 5, price = Fin 100\<rparr>],
        risk_fraction = Fin 0.5\<rparr>
     = \<lparr>data = scenario_A, cash = Fin 500, positions = [(''2024-01-02'', Fin 5)],
        trades = [\<lparr>ticker = ''2024-01-02'', quantity = Fin 5, price = Fin 100\<rparr>],
        risk_fraction = Fin 0.5\<rparr>
   \<and> positions (simulate (init instrument_row (Fin 1000) (Fin 0.5)))
     = [(''AAPL'', Fin 5), (''2024-01-04'', Fin (- 5))]
   \<and> get (positions (simulate (init instrument_row (Fin 1000) (Fin 0.5)))) ''AAPL'' = Fin 5"
  by (simp add: run_defs scenario_A_def instrument_row_def)

text \<open>
  C2. Scenario A (closes 100, 110, 121, signals buy, hold, sell, cash 1000, risk fraction
  0.5) on a frame labelled by dates: the buy of 5 at 100 leaves cash 500, the sell
  signal executes nothing, and the pass ends with cash 500, the 5 units still held and
  a single trade in the log.  The portfolio value at 121 is 1105.
\<close>

theorem scenario_A_run:
  "simulate (init scenario_A (Fin 1000) (Fin 0.5)) =
     \<lparr>data = scenario_A, cash = Fin 500, positions = [(''2024-01-02'', Fin 5)],
      trades = [\<lparr>ticker = ''2024-01-02'', quantity = Fin 5, price = Fin 100\<rparr>],
      risk_fraction = Fin 0.5\<rparr>
   \<and> portfolio_value (simulate (init scenario_A (Fin 1000) (Fin 0.5))) (Fin 121) = Fin 1105"
  by (simp add: run_defs scenario_A_def portfolio_value_def py_sum_def)

section \<open>The trade log\<close>






section \<open>Frames whose labels differ from the name\<close>

lemma get_absent: "map_of ps k = None \<Longrightarrow> get ps k = Fin 0"
  by (simp add: get_def)

lemma step_no_buy:
  assumes "map_of (positions self) (name (data self)) = None" and "signal r \<noteq> 1"
  shows "step r self = self"
  using assms by (simp add: step_def Let_def get_absent)

lemma step_buy:
  assumes "signal r = 1"
  shows "step r self
           = execute self (label r) ((cash self * risk_fraction self) / close r) (close r)"
  using assms by (simp add: step_def Let_def)

lemma step_keeps_name_absent:
  assumes "map_of (positions self) (name (data self)) = None"
      and "label r \<noteq> name (data self)"
  shows "map_of (positions (step r self)) (name (data self)) = None"
proof (cases "signal r = 1")
  case True
  with assms show ?thesis by (simp add: step_buy execute_def update_conv')
next
  case False
  with assms show ?thesis by (simp add: step_no_buy)
qed

lemma take_Suc_run:
  assumes "n < length rs"
  shows "simulate_rows (take (Suc n) rs) self = step (rs ! n) (simulate_rows (take n rs) self)"
  using assms by (simp add: take_Suc_conv_app_nth simulate_rows_append)

lemma run_keeps_name_absent:
  assumes "map_of (positions self) (name (data self)) = None"
      and "\<forall>r \<in> set rs. label r \<noteq> name (data self)"
  shows "map_of (positions (simulate_rows rs self)) (name (data self)) = None"
  using assms
proof (induction rs arbitrary: self)
  case Nil
  then show ?case by simp
next
  case (Cons r rs)
  have "map_of (positions (step r self)) (name (data (step r self))) = None"
    using Cons.prems step_keeps_name_absent [of self r] by simp
  with Cons.IH [of "step r self"] Cons.prems show ?case by simp
qed

lemma run_buys_only:
  assumes "map_of (positions self) (name (data self)) = None"
      and "\<forall>r \<in> set rs. label r \<noteq> name (data self)"
  shows "simulate_rows rs self = simulate_rows (buys rs) self"
  using assms
proof (induction rs arbitrary: self)
  case Nil
  then show ?case by (simp add: buys_def)
next
  case (Cons r rs)
  show ?case
  proof (cases "signal r = 1")
    case True
    have "map_of (positions (step r self)) (name (data (step r self))) = None"
      using Cons.prems step_keeps_name_absent [of self r] by simp
    with Cons.IH [of "step r self"] Cons.prems True show ?thesis
      by (simp add: buys_def)
  next
    case False
    with Cons.prems have "step r self = self" by (simp add: step_no_buy)
    with Cons.IH [of self] Cons.prems False show ?thesis by (simp add: buys_def)
  qed
qed

lemma length_trades_buys:
  "length (trades (simulate_rows (buys rs) self)) = length (trades self) + length (buys rs)"
proof (induction rs arbitrary: self)
  case Nil
  then show ?case by (simp add: buys_def)
next
  case (Cons r rs)
  then show ?case by (simp add: buys_def step_buy execute_def)
qed



lemma prices_of_buys:
  "map price (trades (simulate_rows (buys rs) self))
     = map price (trades self) @ map close (buys rs)"
proof (induction rs arbitrary: self)
  case Nil
  then show ?case by (simp add: buys_def)
next
  case (Cons r rs)
  then show ?case by (simp add: buys_def step_buy execute_def)
qed

text \<open>
  C10, as claimed: on a frame whose labels all differ from its name every logged
  quantity is non-negative and no position entry decreases.  With the risk fraction 2
  the first buy of \<open>two_buys\<close> overdraws the account, and the second buy has the
  quantity \<open>- 16\<close>, stored as a new entry below 0.
\<close>

theorem overdrawn_buy_is_negative:
  "label (rows two_buys ! 0) \<noteq> name two_buys \<and> label (rows two_buys ! 1) \<noteq> name two_buys
   \<and> trades (simulate leveraged)
     = [\<lparr>ticker = ''2024-01-02'', quantity = Fin 20, price = Fin 100\<rparr>,
        \<lparr>ticker = ''2024-01-03'', quantity = Fin (- 16), price = Fin 125\<rparr>]
   \<and> get (positions (simulate_rows (take 1 (rows two_buys)) leveraged)) ''2024-01-03'' = Fin 0
   \<and> get (positions (simulate_rows (take 2 (rows two_buys)) leveraged)) ''2024-01-03''
     = Fin (- 16)"
  by (simp add: run_defs two_buys_def leveraged_def)

text \<open>
  C10, amended.  On a frame whose labels all differ from its name, a pass from the
  constructor's state never takes the sell branch: it equals the pass over the buy rows
  alone, every sell row leaves the state as it is, the name never becomes a key of
  \<open>positions\<close>, and the log has one trade for each buy signal, in the order of the rows
  and at their closes.  Nothing is stated about the sizes of the quantities or of the
  cash.
\<close>

theorem dated_frame_never_sells:
  assumes "\<forall>r \<in> set (rows d). label r \<noteq> name d"
  shows "simulate (init d ic rf) = simulate_rows (buys (rows d)) (init d ic rf)
   \<and> (\<forall>n < length (rows d). signal (rows d ! n) = - 1 \<longrightarrow>
         simulate_rows (take (Suc n) (rows d)) (init d ic rf)
           = simulate_rows (take n (rows d)) (init d ic rf))
   \<and> length (trades (simulate (init d ic rf))) = length (buys (rows d))
   \<and> map price (trades (simulate (init d ic rf))) = map close (buys (rows d))
   \<and> (\<forall>n. map_of (positions (simulate_rows (take n (rows d)) (init d ic rf))) (name d)
            = None)"
proof -
  let ?s = "init d ic rf"
  have d: "data ?s = d" and e: "map_of (positions ?s) (name (data ?s)) = None"
    and t: "trades ?s = []"
    by (simp_all add: init_def)
  have lab: "\<forall>r \<in> set (rows d). label r \<noteq> name (data ?s)"
    using assms d by simp
  have pre: "map_of (positions (simulate_rows (take n (rows d)) ?s)) (name (data ?s)) = None"
    for n
    using run_keeps_name_absent [OF e, of "take n (rows d)"] lab
    by (auto dest: in_set_takeD)
  have A: "simulate ?s = simulate_rows (buys (rows d)) ?s"
    using run_buys_only [OF e lab] d by (simp add: simulate_def)
  have B: "simulate_rows (take (Suc n) (rows d)) ?s = simulate_rows (take n (rows d)) ?s"
    if "n < length (rows d)" and "signal (rows d ! n) = - 1" for n
    using that pre [of n] by (simp add: take_Suc_run step_no_buy)
  have C: "length (trades (simulate ?s)) = length (buys (rows d))"
    using A length_trades_buys [of "rows d" ?s] t by simp
  have D: "map price (trades (simulate ?s)) = map close (buys (rows d))"
    using A prices_of_buys [of "rows d" ?s] t by simp
  have E: "map_of (positions (simulate_rows (take n (rows d)) ?s)) (name d) = None" for n
    using pre [of n] d by simp
  from A B C D E show ?thesis by blast
qed

theorem dated_frame_never_sells_witness:
  "map label (rows scenario_A) = [''2024-01-02'', ''2024-01-03'', ''2024-01-04'']
   \<and> name scenario_A = ''AAPL''
   \<and> signal (rows scenario_A ! 2) = - 1
   \<and> simulate_rows (take 3 (rows scenario_A)) (init scenario_A (Fin 1000) (Fin 0.5))
       = simulate_rows (take 2 (rows scenario_A)) (init scenario_A (Fin 1000) (Fin 0.5))
   \<and> length (trades (simulate (init scenario_A (Fin 1000) (Fin 0.5)))) = 1
   \<and> map price (trades (simulate (init scenario_A (Fin 1000) (Fin 0.5)))) = [Fin 100]
   \<and> map_of (positions (simulate (init scenario_A (Fin 1000) (Fin 0.5)))) ''AAPL'' = None"
proof -
  let ?s = "init scenario_A (Fin 1000) (Fin 0.5)"
  have m: "map label (rows scenario_A) = [''2024-01-02'', ''2024-01-03'', ''2024-01-04'']"
          "name scenario_A = ''AAPL''"
    by (simp_all add: scenario_A_def mk_row_def)
  have l: "\<forall>r \<in> set (rows scenario_A). label r \<noteq> name scenario_A"
    by (simp add: scenario_A_def mk_row_def)
  have s: "signal (rows scenario_A ! 2) = - 1" "length (rows scenario_A) = 3"
    by (simp_all add: scenario_A_def mk_row_def)
  have b: "length (buys (rows scenario_A)) = 1" "map close (buys (rows scenario_A)) = [Fin 100]"
    by (simp_all add: scenario_A_def mk_row_def buys_def)
  note T = dated_frame_never_sells [OF l, of "Fin 1000" "Fin 0.5"]
  have n: "(2::nat) < length (rows scenario_A)" "Suc 2 = 3"
    using s by simp_all
  from T [THEN conjunct2, THEN conjunct1, rule_format, OF n(1) s(1)] n(2)
  have w1: "simulate_rows (take 3 (rows scenario_A)) ?s
              = simulate_rows (take 2 (rows scenario_A)) ?s"
    by simp
  from T [THEN conjunct2, THEN conjunct2, THEN conjunct1] b(1)
  have w2: "length (trades (simulate ?s)) = 1"
    by simp
  from T [THEN conjunct2, THEN conjunct2, THEN conjunct2, THEN conjunct1] b(2)
  have w3: "map price (trades (simulate ?s)) = [Fin 100]"
    by simp
  have f: "simulate ?s = simulate_rows (take 3 (rows scenario_A)) ?s"
    by (simp add: simulate_def init_def s(2))
  from T [THEN conjunct2, THEN conjunct2, THEN conjunct2, THEN conjunct2, rule_format, of 3]
    f m(2)
  have w4: "map_of (positions (simulate ?s)) ''AAPL'' = None"
    by simp
  from m s(1) w1 w2 w3 w4 show ?thesis by blast
qed

section \<open>Properties of the analysis\<close>

lemma length_np_diff: "length (np_diff xs) = length xs - 1"
  by (induction xs rule: np_diff.induct) simp_all

lemma nth_np_diff: "i < length xs - 1 \<Longrightarrow> np_diff xs ! i = xs ! Suc i - xs ! i"
proof (induction xs arbitrary: i rule: np_diff.induct)
  case (1 x y zs)
  then show ?case by (cases i) simp_all
qed simp_all

text \<open>
  C5, as claimed: the returns are the \<open>R[i]\<close> with \<open>i\<close> in \<open>[0, n - 2)\<close>.  For the two
  rows of \<open>two_buys\<close> that range is empty, and the series has one return.
\<close>

theorem two_point_series_has_a_return:
  "length (rows two_buys) = 2
   \<and> returns (simulate (init two_buys (Fin 1000) (Fin 0.5))) = [Fin (7 / 38)]"
  by (simp add: run_defs two_buys_def summary_defs)

text \<open>
  C5, amended.  After the pass, \<open>returns\<close> values every row of the frame with the cash
  and the positions left at the end of the pass.  For \<open>n\<close> rows it has \<open>n - 1\<close> entries,
  \<open>R[i] = (V[i+1] - V[i]) / V[i]\<close> for every \<open>i\<close> with \<open>0 \<le> i < n - 1\<close>, and it is empty
  when the frame has fewer than 2 rows.
\<close>

theorem returns_series:
  "length (returns (simulate self)) = length (rows (data self)) - 1
   \<and> (\<forall>i < length (rows (data self)) - 1.
         returns (simulate self) ! i
           = (portfolio_value (simulate self) (close (rows (data self) ! Suc i))
                - portfolio_value (simulate self) (close (rows (data self) ! i)))
             / portfolio_value (simulate self) (close (rows (data self) ! i)))
   \<and> (\<forall>pr. portfolio_value (simulate self) pr
         = cash (simulate self)
           + py_sum (map (\<lambda>(_, qty). qty * pr) (positions (simulate self))))
   \<and> (length (rows (data self)) < 2 \<longrightarrow> returns (simulate self) = [])"
proof -
  let ?V = "map (\<lambda>r. portfolio_value (simulate self) (close r)) (rows (data self))"
  have d: "data (simulate self) = data self" by (simp add: simulate_def)
  have r: "returns (simulate self) = map2 (/) (np_diff ?V) (butlast ?V)"
    by (simp add: returns_def d Let_def)
  have l: "length (returns (simulate self)) = length (rows (data self)) - 1"
    by (simp add: r length_np_diff)
  have n: "returns (simulate self) ! i
           = (portfolio_value (simulate self) (close (rows (data self) ! Suc i))
                - portfolio_value (simulate self) (close (rows (data self) ! i)))
             / portfolio_value (simulate self) (close (rows (data self) ! i))"
    if "i < length (rows (data self)) - 1" for i
  proof -
    from that have "np_diff ?V ! i = ?V ! Suc i - ?V ! i"
      by (simp add: nth_np_diff)
    moreover from that have "butlast ?V ! i = ?V ! i"
      by (simp add: nth_butlast)
    ultimately show ?thesis using that by (simp add: r length_np_diff)
  qed
  have e: "returns (simulate self) = []" if "length (rows (data self)) < 2"
    using l that by simp
  have p: "portfolio_value (simulate self) pr
         = cash (simulate self)
           + py_sum (map (\<lambda>(_, qty). qty * pr) (positions (simulate self)))" for pr
    by (simp add: portfolio_value_def)
  from l n e p show ?thesis by blast
qed

theorem returns_series_witness:
  "(0::nat) < length (rows (data (init two_buys (Fin 1000) (Fin 0.5)))) - 1
   \<and> length (returns (simulate (init two_buys (Fin 1000) (Fin 0.5)))) = 1
   \<and> returns (simulate (init two_buys (Fin 1000) (Fin 0.5))) ! 0
       = (Fin 1125 - Fin 950) / Fin 950
   \<and> length (rows (data (init one_point (Fin 1000) (Fin 0.5)))) < 2
   \<and> returns (simulate (init one_point (Fin 1000) (Fin 0.5))) = []"
proof -
  let ?s = "init two_buys (Fin 1000) (Fin 0.5)"
  let ?t = "init one_point (Fin 1000) (Fin 0.5)"
  have n: "(0::nat) < length (rows (data ?s)) - 1" "length (rows (data ?s)) - 1 = 1"
    and r: "rows (data ?s) ! 0 = mk_row ''2024-01-02'' 100 1"
           "rows (data ?s) ! Suc 0 = mk_row ''2024-01-03'' 125 1"
    by (simp_all add: init_def two_buys_def)
  have v: "portfolio_value (simulate ?s) (close (mk_row ''2024-01-02'' 100 1 :: string row))
             = Fin 950"
          "portfolio_value (simulate ?s) (close (mk_row ''2024-01-03'' 125 1 :: string row))
             = Fin 1125"
    by (simp_all add: run_defs two_buys_def portfolio_value_def py_sum_def)
  have m: "length (rows (data ?t)) < 2"
    by (simp add: init_def one_point_def)
  note T = returns_series [of ?s]
  from T [THEN conjunct1] n(2)
  have a: "length (returns (simulate ?s)) = 1" by simp
  from T [THEN conjunct2, THEN conjunct1, rule_format, OF n(1)] r v
  have b: "returns (simulate ?s) ! 0 = (Fin 1125 - Fin 950) / Fin 950" by simp
  from returns_series [of ?t, THEN conjunct2, THEN conjunct2, THEN conjunct2] m
  have c: "returns (simulate ?t) = []" by blast
  from n(1) a b m c show ?thesis by blast
qed

subsection \<open>The summary branch by branch\<close>

lemma length_trade_returns: "length (trade_returns_of ts) = length ts - 1"
  by (simp add: trade_returns_of_def length_np_diff)

lemma length_trade_pnl: "length (trade_pnl_of ts) = length ts - 1"
  by (simp add: trade_pnl_of_def length_trade_returns)

lemma performance_summary_unfold:
  "performance_summary self =
     (if rows (data self) = [] then Inl IndexError
      else if python_scalars self \<and> initial_val_of self = Fin 0 then Inl ZeroDivisionError
      else if length (trades self) < 2 then Inl TypeError
      else Inr \<lparr>Total_Return = total_return_of self,
                Annualized_Return = annual_return_of self,
                Volatility = volatility_of self,
                Sharpe_Ratio = sharpe_of (annual_return_of self) (volatility_of self),
                PnL = np_sum (trade_pnl_of (trades self)),
                Avg_Trade_Return = np_mean (trade_returns_of (trades self)),
                Win_Rate =
                  Fin (real (length (filter (\<lambda>x. x > Fin 0) (trade_pnl_of (trades self)))))
                  / Fin (real (length (trades self) - 1))\<rparr>)"
proof (cases "length (trades self) < 2")
  case True
  then show ?thesis by (simp add: performance_summary_def Let_def initial_val_of_def)
next
  case False
  then have m: "1 < length (trades self)" "0 < length (trades self) - 1" by simp_all
  show ?thesis
    unfolding performance_summary_def Let_def
    using m False
    by (simp add: initial_val_of_def final_val_of_def total_return_of_def
          annual_return_of_def volatility_of_def sharpe_of_def trade_returns_of_def
          trade_pnl_of_def length_np_diff filter_map comp_def)
qed

lemma few_trades_TypeError:
  assumes "length (trades self) < 2" and "rows (data self) \<noteq> []"
      and "\<not> (python_scalars self \<and> initial_val_of self = Fin 0)"
  shows "performance_summary self = Inl TypeError"
  using assms by (simp add: performance_summary_unfold)

lemma trade_metrics:
  assumes "performance_summary self = Inr r"
  shows "2 \<le> length (trades self)
         \<and> PnL r = np_sum (trade_pnl_of (trades self))
         \<and> Avg_Trade_Return r = np_mean (trade_returns_of (trades self))
         \<and> Win_Rate r
             = Fin (real (length (filter (\<lambda>x. x > Fin 0) (trade_pnl_of (trades self)))))
               / Fin (real (length (trade_pnl_of (trades self))))"
  using assms
  by (auto simp: performance_summary_unfold length_trade_pnl split: if_splits)

lemma nth_trade_returns:
  assumes "i < length ts - 1"
  shows "trade_returns_of ts ! i = (price (ts ! Suc i) - price (ts ! i)) / price (ts ! i)"
    and "trade_pnl_of ts ! i = trade_returns_of ts ! i * quantity (ts ! i)"
  using assms
  by (simp_all add: trade_pnl_of_def trade_returns_of_def length_np_diff nth_np_diff
        nth_butlast)

text \<open>
  C6.  The claim: with fewer than two trades the PnL, the average trade return and the
  win rate are 0.  With fewer than two trades the trade statistics are the Python list
  \<open>[0]\<close>, and the win rate compares that list with 0, which raises \<open>TypeError\<close>: the
  run without a trade (\<open>all_hold\<close>) and the run with one trade (\<open>one_buy\<close>) return no
  summary at all.
\<close>

theorem summary_without_two_trades:
  "performance_summary (simulate (init all_hold (Fin 1000) (Fin 0.5))) = Inl TypeError
   \<and> trades (simulate (init all_hold (Fin 1000) (Fin 0.5))) = []
   \<and> performance_summary (simulate (init (one_buy ''AAPL'') (Fin 1000) (Fin 0.5)))
       = Inl TypeError"
  by (simp add: run_defs all_hold_def one_buy_def summary_defs)

text \<open>
  C7, as claimed: on a series of fewer than 2 points the computation reports that the
  data are insufficient.  On the single row of \<open>one_point\<close> the return series is
  computed and is empty, and the summary ends in the \<open>TypeError\<close> of the win rate; no
  exception of the code is about the length of the series.
\<close>

theorem one_point_series:
  "returns (simulate (init one_point (Fin 1000) (Fin 0.5))) = []
   \<and> performance_summary (simulate (init one_point (Fin 1000) (Fin 0.5))) = Inl TypeError"
  by (simp add: run_defs one_point_def summary_defs)

text \<open>
  C7, amended.  On a frame of fewer than 2 rows \<open>returns\<close> does not fail: it yields the
  empty series.  On a frame without rows \<open>performance_summary\<close> raises \<open>IndexError\<close>.
\<close>

theorem short_series:
  "(length (rows (data self)) < 2 \<longrightarrow> returns self = [])
   \<and> (rows (data self) = [] \<longrightarrow> performance_summary self = Inl IndexError)"
proof -
  have "length (returns self) = length (rows (data self)) - 1"
    by (simp add: returns_def Let_def length_np_diff)
  then show ?thesis by (auto simp: performance_summary_def Let_def)
qed

theorem short_series_witness:
  "length (rows (data (simulate (init one_point (Fin 1000) (Fin 0.5))))) < 2
   \<and> returns (simulate (init one_point (Fin 1000) (Fin 0.5))) = []
   \<and> rows (data (simulate (init no_rows (Fin 1000) (Fin 0.5)))) = []
   \<and> performance_summary (simulate (init no_rows (Fin 1000) (Fin 0.5))) = Inl IndexError"
proof -
  have a: "length (rows (data (simulate (init one_point (Fin 1000) (Fin 0.5))))) < 2"
    by (simp add: simulate_def init_def one_point_def)
  have b: "rows (data (simulate (init no_rows (Fin 1000) (Fin 0.5)))) = []"
    by (simp add: simulate_def init_def no_rows_def)
  from short_series [of "simulate (init one_point (Fin 1000) (Fin 0.5))"] a
  have c: "returns (simulate (init one_point (Fin 1000) (Fin 0.5))) = []" by blast
  from short_series [of "simulate (init no_rows (Fin 1000) (Fin 0.5))"] b
  have d: "performance_summary (simulate (init no_rows (Fin 1000) (Fin 0.5))) = Inl IndexError"
    by blast
  from a b c d show ?thesis by blast
qed

text \<open>
  C8.  Whether \<open>performance_summary\<close> returns a summary does not depend on the
  volatility: it returns one exactly when the frame has a row, the division of the total
  return is not Python's division by zero, and there are at least two trades.  In every
  summary it returns, the Sharpe ratio is \<open>(annual return - 0.02) / volatility\<close> when the
  volatility is greater than 0, and 0 otherwise, in particular when the volatility is 0
  or \<open>NaN\<close>.
\<close>

theorem sharpe_policy:
  "((\<exists>r. performance_summary self = Inr r) \<longleftrightarrow>
       rows (data self) \<noteq> []
       \<and> \<not> (python_scalars self \<and> initial_val_of self = Fin 0)
       \<and> 2 \<le> length (trades self))
   \<and> (\<forall>r. performance_summary self = Inr r \<longrightarrow>
         Sharpe_Ratio r
           = (if Volatility r > Fin 0 then (Annualized_Return r - Fin 0.02) / Volatility r
              else Fin 0)
         \<and> (Volatility r = Fin 0 \<or> Volatility r = NaN \<longrightarrow> Sharpe_Ratio r = Fin 0))"
proof -
  have a: "(\<exists>r. performance_summary self = Inr r) \<longleftrightarrow>
       rows (data self) \<noteq> []
       \<and> \<not> (python_scalars self \<and> initial_val_of self = Fin 0)
       \<and> 2 \<le> length (trades self)"
    by (auto simp: performance_summary_unfold)
  have b: "Sharpe_Ratio r
           = (if Volatility r > Fin 0 then (Annualized_Return r - Fin 0.02) / Volatility r
              else Fin 0)
         \<and> (Volatility r = Fin 0 \<or> Volatility r = NaN \<longrightarrow> Sharpe_Ratio r = Fin 0)"
    if "performance_summary self = Inr r" for r
  proof -
    from that have "Sharpe_Ratio r = sharpe_of (Annualized_Return r) (Volatility r)"
      by (auto simp: performance_summary_unfold split: if_splits)
    then show ?thesis by (auto simp: sharpe_of_def)
  qed
  from a b show ?thesis by blast
qed

theorem sharpe_policy_witness:
  "performance_summary (simulate (init round_trip (Fin 1000) (Fin 0.5)))
     = Inr \<lparr>Total_Return = Fin 0, Annualized_Return = Fin 0,
            Volatility = Fin (sqrt (337561 / 11696400) * sqrt 252),
            Sharpe_Ratio = Fin (- (1 / (50 * (sqrt (337561 / 11696400) * sqrt 252)))),
            PnL = Fin (5 / 4), Avg_Trade_Return = Fin (1 / 4), Win_Rate = Fin 1\<rparr>
   \<and> Fin 0 < Fin (sqrt (337561 / 11696400) * sqrt 252)
   \<and> Fin (- (1 / (50 * (sqrt (337561 / 11696400) * sqrt 252))))
       = (Fin 0 - Fin 0.02) / Fin (sqrt (337561 / 11696400) * sqrt 252)
   \<and> performance_summary (simulate (init glitch (Fin 1000) (Fin 1)))
     = Inr \<lparr>Total_Return = Fin (1 / 4), Annualized_Return = Fin ((5 / 4) ^ 84 - 1),
            Volatility = NaN, Sharpe_Ratio = Fin 0,
            PnL = Fin (5 / 2), Avg_Trade_Return = Fin (1 / 4), Win_Rate = Fin 1\<rparr>"
proof -
  let ?r = "\<lparr>Total_Return = Fin 0, Annualized_Return = Fin 0,
            Volatility = Fin (sqrt (337561 / 11696400) * sqrt 252),
            Sharpe_Ratio = Fin (- (1 / (50 * (sqrt (337561 / 11696400) * sqrt 252)))),
            PnL = Fin (5 / 4), Avg_Trade_Return = Fin (1 / 4), Win_Rate = Fin 1\<rparr>"
  have e: "performance_summary (simulate (init round_trip (Fin 1000) (Fin 0.5))) = Inr ?r"
    by (simp add: run_defs round_trip_def summary_defs)
  have p: "Fin 0 < Fin (sqrt (337561 / 11696400) * sqrt 252)" by simp
  note T = sharpe_policy [of "simulate (init round_trip (Fin 1000) (Fin 0.5))"]
  from T [THEN conjunct2, rule_format, OF e, THEN conjunct1] p
  have a: "Fin (- (1 / (50 * (sqrt (337561 / 11696400) * sqrt 252))))
       = (Fin 0 - Fin 0.02) / Fin (sqrt (337561 / 11696400) * sqrt 252)"
    by simp
  let ?g = "performance_summary (simulate (init glitch (Fin 1000) (Fin 1)))"
  have g: "?g = Inr \<lparr>Total_Return = Fin (1 / 4), Annualized_Return = Fin ((5 / 4) ^ 84 - 1),
            Volatility = NaN, Sharpe_Ratio = Fin 0,
            PnL = Fin (5 / 2), Avg_Trade_Return = Fin (1 / 4), Win_Rate = Fin 1\<rparr>"
    by (simp add: run_defs glitch_def summary_defs)
  from e p a g show ?thesis by blast
qed

end
